theory Spec2Isabelle
  imports Complex_Main "HOL-Library.FSet" "HOL-Library.Finite_Map" "HOL-Library.AList"
begin

section \<open>Domain model (models.py)\<close>

text \<open>
  Conventions of the embedding.
  \<^item> A \<open>datetime\<close> is the number of seconds since 1970-01-01T00:00 (naive, no time zone), an
    \<open>int\<close>; \<open>timedelta(seconds=n)\<close> is the integer \<open>n\<close>.
  \<^item> A finite Python \<open>float\<close> amount is a \<open>real\<close>: rounding, infinities and NaN of IEEE
    arithmetic are not modelled.  The only place where an infinite float matters to the source's
    own tests is the upper end of an amount range, which has the type \<open>bound\<close> below.
  \<^item> A Python \<open>set\<close> is an \<open>fset\<close> where its size is read and a \<open>set\<close> where only membership
    is; a \<open>dict\<close> is a map, a finite map where its size is read, and an association list where
    the iteration order matters.
  \<^item> An exception is a value of type \<open>error\<close>; a method that mutates \<open>self\<close> returns the new
    object next to its result, also when it raises.  Message texts are the source's, with the
    interpolated values left out.
\<close>

type_synonym datetime = int

datatype error =
    ValueError string
  | PermissionError string
  | RuntimeError string
  | PolicyViolation string string
  | ZeroDivisionError

fun str_of_error :: "error \<Rightarrow> string" where
  "str_of_error (ValueError m) = m"
| "str_of_error (PermissionError m) = m"
| "str_of_error (RuntimeError m) = m"
| "str_of_error (PolicyViolation policy_name m) = policy_name @ '': '' @ m"
| "str_of_error ZeroDivisionError = ''float division by zero''"

datatype category = OPERATIONS | MARKETING | DEVELOPMENT | RESEARCH | SECURITY | OTHER

fun category_value :: "category \<Rightarrow> string" where
  "category_value OPERATIONS = ''operations''"
| "category_value MARKETING = ''marketing''"
| "category_value DEVELOPMENT = ''development''"
| "category_value RESEARCH = ''research''"
| "category_value SECURITY = ''security''"
| "category_value OTHER = ''other''"

datatype proposal_status = PENDING | TIME_LOCKED | READY_TO_EXECUTE | EXECUTED | CANCELLED | FAILED

datatype transaction_type = TRANSFER | BURN | MINT

datatype period_type = DAILY | WEEKLY | MONTHLY

record transaction =
  tx_id :: string
  tx_type :: transaction_type
  recipient :: string
  amount :: real
  coin_type :: string
  description :: string
  metadata :: "(string \<times> string) list"

text \<open>
  What one call reads from outside the repository: the wall clock (\<open>datetime.now()\<close>, one
  reading per call), the identifier drawn by \<open>str(uuid.uuid4())\<close>, the SHA-256 digest of a
  transaction's canonical JSON (\<open>Transaction.compute_hash\<close>) and Python's built-in \<open>hash\<close> of
  the tuple built by \<open>Treasury._compute_proposal_hash\<close>.
\<close>

record env =
  clock :: datetime
  uuid4 :: string
  compute_hash :: "transaction \<Rightarrow> string"
  builtin_hash :: "string \<times> string list \<times> string \<Rightarrow> int"

text \<open>\<open>current_time or datetime.now()\<close>: a datetime is never falsy.\<close>

definition or_now :: "env \<Rightarrow> datetime option \<Rightarrow> datetime" where
  "or_now E current_time = (case current_time of Some t \<Rightarrow> t | None \<Rightarrow> clock E)"

text \<open>
  \<open>Signature.tx_hash\<close> holds the integer of \<open>hash(...)\<close> for a proposal signature and the
  action id, a string, for an emergency signature.
\<close>

datatype hash_value = HashInt int | HashStr string

record signature =
  signer :: string
  signature :: string
  timestamp :: datetime
  tx_hash :: hash_value

definition verify_signature :: "signature \<Rightarrow> bool" where
  "verify_signature sg \<longleftrightarrow> length (signature sg) > 0 \<and> length (signer sg) > 0"

record proposal =
  proposal_id :: string
  creator :: string
  transactions :: "transaction list"
  category :: category
  p_description :: string
  threshold_required :: int
  created_at :: datetime
  time_lock_duration :: int
  status :: proposal_status
  signatures :: "(string, signature) fmap"
  executed_at :: "datetime option"
  cancelled_at :: "datetime option"

definition get_signature_count :: "proposal \<Rightarrow> int" where
  "get_signature_count p = int (fcard (fmdom (signatures p)))"

definition can_execute :: "proposal \<Rightarrow> datetime \<Rightarrow> bool" where
  "can_execute p current_time =
     (let time_locked_at = created_at p + time_lock_duration p
      in current_time \<ge> time_locked_at \<and>
         int (fcard (fmdom (signatures p))) \<ge> threshold_required p \<and>
         status p \<in> set [PENDING, TIME_LOCKED])"

definition is_signed_by :: "proposal \<Rightarrow> string \<Rightarrow> bool" where
  "is_signed_by p s \<longleftrightarrow> s |\<in>| fmdom (signatures p)"

record spending_record =
  sr_amount :: real
  sr_timestamp :: datetime
  sr_category :: category
  sr_proposal_id :: string
  sr_tx_hash :: string

record treasury_balance =
  b_coin_type :: string
  b_amount :: real
  last_updated :: datetime

definition TreasuryBalance_deposit :: "env \<Rightarrow> treasury_balance \<Rightarrow> real \<Rightarrow> error + treasury_balance" where
  "TreasuryBalance_deposit E b a =
     (if a \<le> 0 then Inl (ValueError ''Deposit amount must be positive'')
      else Inr (b\<lparr>b_amount := b_amount b + a, last_updated := clock E\<rparr>))"

definition withdraw :: "env \<Rightarrow> treasury_balance \<Rightarrow> real \<Rightarrow> error + (bool \<times> treasury_balance)" where
  "withdraw E b a =
     (if a \<le> 0 then Inl (ValueError ''Withdrawal amount must be positive'')
      else if a > b_amount b then Inr (False, b)
      else Inr (True, b\<lparr>b_amount := b_amount b - a, last_updated := clock E\<rparr>))"

record emergency_action =
  action_id :: string
  action_type :: string
  initiated_by :: string
  initiated_at :: datetime
  reason :: string
  a_signatures :: "(string, signature) fmap"
  executed :: bool
  a_executed_at :: "datetime option"

text \<open>
  \<open>Treasury.__init__\<close> stores \<open>emergency_signers or signers\<close>: without a non-empty set of
  emergency signers, \<open>config.emergency_signers\<close> is the very set object \<open>config.signers\<close>, and a
  mutation of one is a mutation of the other.  \<open>separate_emergency_signers\<close> is \<open>None\<close> in that
  case and holds the second set object otherwise.  The \<open>EmergencyModule\<close> is given the same
  object as \<open>config.emergency_signers\<close>, so it reads this field too.
\<close>

record treasury_config =
  cfg_treasury_id :: string
  signers :: "string fset"
  threshold :: int
  emergency_threshold :: int
  separate_emergency_signers :: "string fset option"
  emergency_cooldown :: int
  last_emergency_at :: "datetime option"

definition emergency_signers :: "treasury_config \<Rightarrow> string fset" where
  "emergency_signers c = (case separate_emergency_signers c of None \<Rightarrow> signers c | Some es \<Rightarrow> es)"

definition is_valid_signer :: "treasury_config \<Rightarrow> string \<Rightarrow> bool" where
  "is_valid_signer c s \<longleftrightarrow> s |\<in>| signers c"

definition can_trigger_emergency :: "treasury_config \<Rightarrow> datetime \<Rightarrow> bool" where
  "can_trigger_emergency c current_time =
     (case last_emergency_at c of
        None \<Rightarrow> True
      | Some l \<Rightarrow> current_time - l \<ge> emergency_cooldown c)"

section \<open>Policies (policies.py)\<close>

record base_policy =
  policy_id :: string
  enabled :: bool

text \<open>
  The mutable \<open>context\<close> dictionary: each key may be absent.  \<open>required_time_lock\<close> and
  \<open>required_threshold\<close> are the two keys that policies write.
\<close>

record policy_context =
  ctx_category :: "category option"
  ctx_current_time :: "datetime option"
  ctx_signatures :: "(string, signature) fmap option"
  required_time_lock :: "int option"
  required_threshold :: "int option"

subsection \<open>SpendingLimitPolicy\<close>

text \<open>
  \<open>datetime.replace\<close> and \<open>datetime.weekday\<close> on seconds since the epoch: 1970-01-01 was a
  Thursday (weekday 3, Monday being 0); the day of the month follows the proleptic Gregorian
  calendar, computed from the day count in 400-year eras that start on a 1st of March.
\<close>

definition midnight :: "datetime \<Rightarrow> datetime" where
  "midnight t = t - t mod 86400"

definition weekday :: "datetime \<Rightarrow> int" where
  "weekday t = (t div 86400 + 3) mod 7"

definition day_of_month :: "datetime \<Rightarrow> int" where
  "day_of_month t =
     (let doe = (t div 86400 + 719468) mod 146097;
          yoe = (doe - doe div 1460 + doe div 36524 - doe div 146096) div 365;
          doy = doe - (365 * yoe + yoe div 4 - yoe div 100);
          mp = (5 * doy + 2) div 153
      in doy - (153 * mp + 2) div 5 + 1)"

record spending_limit_policy = base_policy +
  period_type :: period_type
  limit_per_category :: "category \<rightharpoonup> real"
  global_limit :: "real option"
  max_per_transaction :: "real option"
  spending_history :: "spending_record list"

definition add_spending_record :: "spending_limit_policy \<Rightarrow> spending_record \<Rightarrow> spending_limit_policy" where
  "add_spending_record p r = p\<lparr>spending_history := spending_history p @ [r]\<rparr>"

definition get_period_start :: "spending_limit_policy \<Rightarrow> datetime \<Rightarrow> datetime" where
  "get_period_start p current_time =
     (case period_type p of
        DAILY \<Rightarrow> midnight current_time
      | WEEKLY \<Rightarrow> midnight (current_time - 86400 * weekday current_time)
      | MONTHLY \<Rightarrow> midnight (current_time - 86400 * (day_of_month current_time - 1)))"

definition get_current_spending :: "spending_limit_policy \<Rightarrow> category \<Rightarrow> datetime \<Rightarrow> real" where
  "get_current_spending p c current_time =
     (let period_start = get_period_start p current_time
      in sum_list (map sr_amount
           (filter (\<lambda>r. sr_category r = c \<and> sr_timestamp r \<ge> period_start) (spending_history p))))"

definition get_global_spending :: "spending_limit_policy \<Rightarrow> datetime \<Rightarrow> real" where
  "get_global_spending p current_time =
     (let period_start = get_period_start p current_time
      in sum_list (map sr_amount
           (filter (\<lambda>r. sr_timestamp r \<ge> period_start) (spending_history p))))"

text \<open>\<open>if self.max_per_transaction and ...\<close>: \<open>None\<close> and \<open>0.0\<close> are falsy.\<close>

definition truthy :: "real option \<Rightarrow> bool" where
  "truthy x = (case x of None \<Rightarrow> False | Some v \<Rightarrow> v \<noteq> 0)"

definition SpendingLimitPolicy_validate ::
  "env \<Rightarrow> spending_limit_policy \<Rightarrow> transaction \<Rightarrow> policy_context \<Rightarrow> error + unit" where
  "SpendingLimitPolicy_validate E p tx ctx =
     (if \<not> enabled p then Inr ()
      else
        let c = (case ctx_category ctx of Some c \<Rightarrow> c | None \<Rightarrow> OTHER);
            current_time = (case ctx_current_time ctx of Some t \<Rightarrow> t | None \<Rightarrow> clock E)
        in if truthy (max_per_transaction p) \<and> amount tx > the (max_per_transaction p)
           then Inl (PolicyViolation (policy_id p) ''Transaction amount exceeds max per transaction'')
           else if (case limit_per_category p c of
                      Some limit \<Rightarrow> get_current_spending p c current_time + amount tx > limit
                    | None \<Rightarrow> False)
           then Inl (PolicyViolation (policy_id p) ''Spending limit exceeded for category'')
           else if truthy (global_limit p) \<and>
                   get_global_spending p current_time + amount tx > the (global_limit p)
           then Inl (PolicyViolation (policy_id p) ''Global spending limit exceeded'')
           else Inr ())"

subsection \<open>WhitelistPolicy\<close>

record whitelist_policy = base_policy +
  approved_recipients :: "string set"
  blacklisted_recipients :: "string set"
  temporary_entries :: "string \<rightharpoonup> datetime"

definition add_recipient :: "whitelist_policy \<Rightarrow> string \<Rightarrow> error + whitelist_policy" where
  "add_recipient p r =
     (if r \<in> blacklisted_recipients p then Inl (ValueError ''Recipient is blacklisted'')
      else Inr (p\<lparr>approved_recipients := insert r (approved_recipients p)\<rparr>))"

definition add_temporary_recipient ::
  "whitelist_policy \<Rightarrow> string \<Rightarrow> datetime \<Rightarrow> error + whitelist_policy" where
  "add_temporary_recipient p r expires_at =
     (if r \<in> blacklisted_recipients p then Inl (ValueError ''Recipient is blacklisted'')
      else Inr (p\<lparr>temporary_entries := (temporary_entries p)(r \<mapsto> expires_at)\<rparr>))"

definition remove_recipient :: "whitelist_policy \<Rightarrow> string \<Rightarrow> whitelist_policy" where
  "remove_recipient p r =
     p\<lparr>approved_recipients := approved_recipients p - {r},
       temporary_entries := (temporary_entries p)(r := None)\<rparr>"

definition blacklist_recipient :: "whitelist_policy \<Rightarrow> string \<Rightarrow> whitelist_policy" where
  "blacklist_recipient p r =
     p\<lparr>approved_recipients := approved_recipients p - {r},
       temporary_entries := (temporary_entries p)(r := None),
       blacklisted_recipients := insert r (blacklisted_recipients p)\<rparr>"

text \<open>The lookup deletes an expired temporary entry, so it returns the policy as well.\<close>

definition is_recipient_approved ::
  "whitelist_policy \<Rightarrow> string \<Rightarrow> datetime \<Rightarrow> bool \<times> whitelist_policy" where
  "is_recipient_approved p r current_time =
     (if r \<in> blacklisted_recipients p then (False, p)
      else if r \<in> approved_recipients p then (True, p)
      else case temporary_entries p r of
             Some expires_at \<Rightarrow>
               if current_time < expires_at then (True, p)
               else (False, p\<lparr>temporary_entries := (temporary_entries p)(r := None)\<rparr>)
           | None \<Rightarrow> (False, p))"

definition WhitelistPolicy_validate ::
  "env \<Rightarrow> whitelist_policy \<Rightarrow> transaction \<Rightarrow> policy_context \<Rightarrow> (error + unit) \<times> whitelist_policy" where
  "WhitelistPolicy_validate E p tx ctx =
     (if \<not> enabled p then (Inr (), p)
      else
        let current_time = (case ctx_current_time ctx of Some t \<Rightarrow> t | None \<Rightarrow> clock E);
            (approved, p') = is_recipient_approved p (recipient tx) current_time
        in if \<not> approved
           then (Inl (PolicyViolation (policy_id p) ''Recipient is not whitelisted''), p')
           else (Inr (), p'))"

subsection \<open>CategoryPolicy\<close>

record category_policy = base_policy +
  required_categories :: "category set"
  category_thresholds :: "category \<rightharpoonup> int"

definition set_category_threshold :: "category_policy \<Rightarrow> category \<Rightarrow> int \<Rightarrow> category_policy" where
  "set_category_threshold p c n = p\<lparr>category_thresholds := (category_thresholds p)(c \<mapsto> n)\<rparr>"

definition CategoryPolicy_validate :: "category_policy \<Rightarrow> transaction \<Rightarrow> policy_context \<Rightarrow> error + unit" where
  "CategoryPolicy_validate p tx ctx =
     (if \<not> enabled p then Inr ()
      else case ctx_category ctx of
             None \<Rightarrow> Inl (PolicyViolation (policy_id p) ''Transaction must have a category assigned'')
           | Some c \<Rightarrow>
               if required_categories p \<noteq> {} \<and> c \<notin> required_categories p
               then Inl (PolicyViolation (policy_id p) ''Category is not allowed'')
               else Inr ())"

subsection \<open>TimeLockPolicy\<close>

record time_lock_policy = base_policy +
  base_lock_duration :: "category \<rightharpoonup> int"
  amount_factor :: real

text \<open>Python's \<open>int(x)\<close> on a float rounds towards zero.\<close>

definition py_int :: "real \<Rightarrow> int" where
  "py_int x = (if 0 \<le> x then \<lfloor>x\<rfloor> else - \<lfloor>- x\<rfloor>)"

definition calculate_lock_duration :: "time_lock_policy \<Rightarrow> real \<Rightarrow> category \<Rightarrow> error + int" where
  "calculate_lock_duration p a c =
     (let base = (case base_lock_duration p c of Some b \<Rightarrow> b | None \<Rightarrow> 3600)
      in if amount_factor p = 0 then Inl ZeroDivisionError
         else Inr (base + py_int (a / amount_factor p) * 3600))"

definition TimeLockPolicy_validate :: "time_lock_policy \<Rightarrow> transaction \<Rightarrow> policy_context \<Rightarrow> error + policy_context" where
  "TimeLockPolicy_validate p tx ctx =
     (if \<not> enabled p then Inr ctx
      else
        let c = (case ctx_category ctx of Some c \<Rightarrow> c | None \<Rightarrow> OTHER)
        in case calculate_lock_duration p (amount tx) c of
             Inl e \<Rightarrow> Inl e
           | Inr lock_duration \<Rightarrow>
               Inr (ctx\<lparr>required_time_lock :=
                      Some (max (case required_time_lock ctx of Some v \<Rightarrow> v | None \<Rightarrow> 0)
                                lock_duration)\<rparr>))"

subsection \<open>AmountThresholdPolicy\<close>

text \<open>An end of an amount range: a finite float or \<open>float('inf')\<close> with either sign.\<close>

datatype bound = MinusInf | Finite real | PlusInf

fun bound_le :: "bound \<Rightarrow> real \<Rightarrow> bool" where
  "bound_le MinusInf a = True"
| "bound_le (Finite b) a = (b \<le> a)"
| "bound_le PlusInf a = False"

fun less_bound :: "real \<Rightarrow> bound \<Rightarrow> bool" where
  "less_bound a MinusInf = False"
| "less_bound a (Finite b) = (a < b)"
| "less_bound a PlusInf = True"

record amount_threshold_policy = base_policy +
  thresholds :: "(bound \<times> bound \<times> int) list"

fun first_range :: "(bound \<times> bound \<times> int) list \<Rightarrow> real \<Rightarrow> int option" where
  "first_range [] a = None"
| "first_range ((min_amt, max_amt, thr) # rs) a =
     (if bound_le min_amt a \<and> less_bound a max_amt then Some thr else first_range rs a)"

definition AmountThresholdPolicy_get_required_threshold :: "amount_threshold_policy \<Rightarrow> real \<Rightarrow> int" where
  "AmountThresholdPolicy_get_required_threshold p a =
     (case first_range (thresholds p) a of
        Some thr \<Rightarrow> thr
      | None \<Rightarrow> if thresholds p \<noteq> [] then snd (snd (last (thresholds p))) else 2)"

definition AmountThresholdPolicy_validate :: "amount_threshold_policy \<Rightarrow> transaction \<Rightarrow> policy_context \<Rightarrow> policy_context" where
  "AmountThresholdPolicy_validate p tx ctx =
     (if \<not> enabled p then ctx
      else
        let thr = AmountThresholdPolicy_get_required_threshold p (amount tx)
        in ctx\<lparr>required_threshold :=
                 Some (max (case required_threshold ctx of Some v \<Rightarrow> v | None \<Rightarrow> 0) thr)\<rparr>)"

subsection \<open>ApprovalPolicy\<close>

record approval_policy = base_policy +
  required_signers_by_category :: "category \<rightharpoonup> string set"
  veto_signers :: "string set"
  multi_tier_signers :: "string \<rightharpoonup> int"

definition add_required_signer :: "approval_policy \<Rightarrow> category \<Rightarrow> string \<Rightarrow> approval_policy" where
  "add_required_signer p c s =
     p\<lparr>required_signers_by_category := (required_signers_by_category p)
         (c \<mapsto> insert s (case required_signers_by_category p c of None \<Rightarrow> {} | Some S \<Rightarrow> S))\<rparr>"

definition add_veto_signer :: "approval_policy \<Rightarrow> string \<Rightarrow> approval_policy" where
  "add_veto_signer p s = p\<lparr>veto_signers := insert s (veto_signers p)\<rparr>"

definition set_multi_tier :: "approval_policy \<Rightarrow> string \<Rightarrow> int \<Rightarrow> approval_policy" where
  "set_multi_tier p s tier_level = p\<lparr>multi_tier_signers := (multi_tier_signers p)(s \<mapsto> tier_level)\<rparr>"

definition ApprovalPolicy_validate :: "approval_policy \<Rightarrow> transaction \<Rightarrow> policy_context \<Rightarrow> error + unit" where
  "ApprovalPolicy_validate p tx ctx =
     (if \<not> enabled p then Inr ()
      else
        let c = (case ctx_category ctx of Some c \<Rightarrow> c | None \<Rightarrow> OTHER);
            sigs = (case ctx_signatures ctx of Some m \<Rightarrow> m | None \<Rightarrow> fmempty)
        in if (case required_signers_by_category p c of
                 Some required \<Rightarrow> \<not> required \<subseteq> fset (fmdom sigs)
               | None \<Rightarrow> False)
           then Inl (PolicyViolation (policy_id p) ''Missing required signers'')
           else if veto_signers p \<inter> fset (fmdom sigs) \<noteq> {}
           then Inl (PolicyViolation (policy_id p) ''Veto signer cannot approve this proposal'')
           else Inr ())"

subsection \<open>PolicyManager\<close>

datatype policy =
    SpendingLimit spending_limit_policy
  | Whitelist whitelist_policy
  | Category category_policy
  | TimeLock time_lock_policy
  | AmountThreshold amount_threshold_policy
  | Approval approval_policy

fun policy_id_of :: "policy \<Rightarrow> string" where
  "policy_id_of (SpendingLimit p) = policy_id p"
| "policy_id_of (Whitelist p) = policy_id p"
| "policy_id_of (Category p) = policy_id p"
| "policy_id_of (TimeLock p) = policy_id p"
| "policy_id_of (AmountThreshold p) = policy_id p"
| "policy_id_of (Approval p) = policy_id p"

text \<open>
  \<open>policy.validate(transaction, context)\<close> by dynamic dispatch: the result, the policy object
  after the call and the context after the call.
\<close>

fun validate :: "env \<Rightarrow> policy \<Rightarrow> transaction \<Rightarrow> policy_context \<Rightarrow> (error + unit) \<times> policy \<times> policy_context" where
  "validate E (SpendingLimit p) tx ctx = (SpendingLimitPolicy_validate E p tx ctx, SpendingLimit p, ctx)"
| "validate E (Whitelist p) tx ctx =
     (case WhitelistPolicy_validate E p tx ctx of (r, p') \<Rightarrow> (r, Whitelist p', ctx))"
| "validate E (Category p) tx ctx = (CategoryPolicy_validate p tx ctx, Category p, ctx)"
| "validate E (TimeLock p) tx ctx =
     (case TimeLockPolicy_validate p tx ctx of
        Inl e \<Rightarrow> (Inl e, TimeLock p, ctx)
      | Inr ctx' \<Rightarrow> (Inr (), TimeLock p, ctx'))"
| "validate E (AmountThreshold p) tx ctx =
     (Inr (), AmountThreshold p, AmountThresholdPolicy_validate p tx ctx)"
| "validate E (Approval p) tx ctx = (ApprovalPolicy_validate p tx ctx, Approval p, ctx)"

text \<open>
  \<open>PolicyManager.policies\<close>, a dictionary iterated in insertion order: an association list from
  policy id to policy.
\<close>

type_synonym policy_manager = "(string \<times> policy) list"

definition add_policy :: "policy_manager \<Rightarrow> policy \<Rightarrow> policy_manager" where
  "add_policy pm p = AList.update (policy_id_of p) p pm"

definition remove_policy :: "policy_manager \<Rightarrow> string \<Rightarrow> policy_manager" where
  "remove_policy pm k = AList.delete k pm"

definition get_policy :: "policy_manager \<Rightarrow> string \<Rightarrow> policy option" where
  "get_policy pm k = map_of pm k"

definition list_policies :: "policy_manager \<Rightarrow> string list" where
  "list_policies pm = map fst pm"

text \<open>
  \<open>validate_transaction\<close>: the loop over \<open>self.policies.values()\<close> stops at the first policy
  that raises; the policies visited so far keep what \<open>validate\<close> did to them.
\<close>

fun validate_transaction ::
  "env \<Rightarrow> policy_manager \<Rightarrow> transaction \<Rightarrow> policy_context \<Rightarrow> (error + unit) \<times> policy_manager \<times> policy_context" where
  "validate_transaction E [] tx ctx = (Inr (), [], ctx)"
| "validate_transaction E ((k, p) # ps) tx ctx =
     (case validate E p tx ctx of
        (Inl e, p', ctx') \<Rightarrow> (Inl e, (k, p') # ps, ctx')
      | (Inr u, p', ctx') \<Rightarrow>
          (case validate_transaction E ps tx ctx' of
             (r, ps', ctx'') \<Rightarrow> (r, (k, p') # ps', ctx'')))"

text \<open>
  \<open>get_required_time_lock\<close>: for each transaction, each \<open>TimeLockPolicy\<close> of the manager
  validates into one shared context that starts with \<open>required_time_lock = 0\<close>.
\<close>

fun time_lock_policies :: "policy_manager \<Rightarrow> transaction \<Rightarrow> policy_context \<Rightarrow> error + policy_context" where
  "time_lock_policies [] tx ctx = Inr ctx"
| "time_lock_policies ((k, TimeLock p) # ps) tx ctx =
     (case TimeLockPolicy_validate p tx ctx of
        Inl e \<Rightarrow> Inl e
      | Inr ctx' \<Rightarrow> time_lock_policies ps tx ctx')"
| "time_lock_policies ((k, q) # ps) tx ctx = time_lock_policies ps tx ctx"

fun time_lock_transactions :: "policy_manager \<Rightarrow> transaction list \<Rightarrow> policy_context \<Rightarrow> error + policy_context" where
  "time_lock_transactions pm [] ctx = Inr ctx"
| "time_lock_transactions pm (tx # txs) ctx =
     (case time_lock_policies pm tx ctx of
        Inl e \<Rightarrow> Inl e
      | Inr ctx' \<Rightarrow> time_lock_transactions pm txs ctx')"

definition get_required_time_lock :: "policy_manager \<Rightarrow> transaction list \<Rightarrow> category \<Rightarrow> error + int" where
  "get_required_time_lock pm txs c =
     (let ctx = \<lparr>ctx_category = Some c, ctx_current_time = None, ctx_signatures = None,
                 required_time_lock = Some 0, required_threshold = None\<rparr>
      in case time_lock_transactions pm txs ctx of
           Inl e \<Rightarrow> Inl e
         | Inr ctx' \<Rightarrow> Inr (case required_time_lock ctx' of Some v \<Rightarrow> v | None \<Rightarrow> 0))"

text \<open>
  \<open>get_required_threshold\<close>: the context starts with \<open>required_threshold = 0\<close>; inside the loop
  over the transactions the maximum amount of the whole list is recomputed, and only when it
  is positive do the \<open>AmountThresholdPolicy\<close> instances validate the current transaction.
\<close>

fun amount_threshold_policies :: "policy_manager \<Rightarrow> transaction \<Rightarrow> policy_context \<Rightarrow> policy_context" where
  "amount_threshold_policies [] tx ctx = ctx"
| "amount_threshold_policies ((k, AmountThreshold p) # ps) tx ctx =
     amount_threshold_policies ps tx (AmountThresholdPolicy_validate p tx ctx)"
| "amount_threshold_policies ((k, q) # ps) tx ctx = amount_threshold_policies ps tx ctx"

definition max_amount :: "transaction list \<Rightarrow> real" where
  "max_amount txs = (if txs \<noteq> [] then Max (set (map amount txs)) else 0)"

fun threshold_transactions ::
  "policy_manager \<Rightarrow> transaction list \<Rightarrow> transaction list \<Rightarrow> policy_context \<Rightarrow> policy_context" where
  "threshold_transactions pm all_txs [] ctx = ctx"
| "threshold_transactions pm all_txs (tx # txs) ctx =
     threshold_transactions pm all_txs txs
       (if max_amount all_txs > 0 then amount_threshold_policies pm tx ctx else ctx)"

definition get_required_threshold :: "policy_manager \<Rightarrow> transaction list \<Rightarrow> int" where
  "get_required_threshold pm txs =
     (let ctx = \<lparr>ctx_category = None, ctx_current_time = None, ctx_signatures = None,
                 required_time_lock = None, required_threshold = Some 0\<rparr>
      in case required_threshold (threshold_transactions pm txs txs ctx) of
           Some v \<Rightarrow> v
         | None \<Rightarrow> 2)"

section \<open>Emergency module (emergency.py)\<close>

text \<open>
  The module's \<open>emergency_signers\<close> attribute is the set object of the treasury configuration
  (see \<open>treasury_config\<close>), so its methods take the current content of that set as an argument.
\<close>

record emergency_module =
  em_emergency_threshold :: int
  actions :: "string \<rightharpoonup> emergency_action"

definition create_emergency_action ::
  "env \<Rightarrow> string fset \<Rightarrow> emergency_module \<Rightarrow> string \<Rightarrow> string \<Rightarrow> string \<Rightarrow> datetime
     \<Rightarrow> error + (string \<times> emergency_module)" where
  "create_emergency_action E em_signers em initiator atype why current_time =
     (if initiator |\<notin>| em_signers then Inl (PermissionError ''is not an emergency signer'')
      else
        let aid = uuid4 E;
            a = \<lparr>action_id = aid, action_type = atype, initiated_by = initiator,
                 initiated_at = current_time, reason = why, a_signatures = fmempty,
                 executed = False, a_executed_at = None\<rparr>
        in Inr (aid, em\<lparr>actions := (actions em)(aid \<mapsto> a)\<rparr>))"

definition EmergencyModule_sign_emergency_action ::
  "string fset \<Rightarrow> emergency_module \<Rightarrow> string \<Rightarrow> string \<Rightarrow> string \<Rightarrow> datetime
     \<Rightarrow> error + emergency_module" where
  "EmergencyModule_sign_emergency_action em_signers em aid sname sig_text current_time =
     (case actions em aid of
        None \<Rightarrow> Inl (ValueError ''Emergency action not found'')
      | Some a \<Rightarrow>
          if sname |\<notin>| em_signers then Inl (PermissionError ''is not an emergency signer'')
          else if sname |\<in>| fmdom (a_signatures a)
          then Inl (ValueError ''has already signed this action'')
          else if executed a then Inl (ValueError ''Cannot sign an executed emergency action'')
          else Inr (em\<lparr>actions := (actions em)(aid \<mapsto>
                 a\<lparr>a_signatures := fmupd sname
                      \<lparr>signer = sname, signature = sig_text, timestamp = current_time,
                       tx_hash = HashStr (action_id a)\<rparr> (a_signatures a)\<rparr>)\<rparr>))"

definition get_action :: "emergency_module \<Rightarrow> string \<Rightarrow> emergency_action option" where
  "get_action em aid = actions em aid"

definition can_execute_action :: "emergency_module \<Rightarrow> string \<Rightarrow> bool" where
  "can_execute_action em aid =
     (case actions em aid of
        None \<Rightarrow> False
      | Some a \<Rightarrow> int (fcard (fmdom (a_signatures a))) \<ge> em_emergency_threshold em \<and> \<not> executed a)"

section \<open>Treasury (treasury.py)\<close>

datatype detail = DStr string | DInt int | DReal real

record treasury_audit_log =
  log_timestamp :: datetime
  action :: string
  actor :: string
  log_proposal_id :: "string option"
  details :: "(string \<times> detail) list"

record treasury =
  treasury_id :: string
  config :: treasury_config
  balances :: "string \<rightharpoonup> treasury_balance"
  proposals :: "string \<rightharpoonup> proposal"
  policy_manager :: policy_manager
  emergency_module :: emergency_module
  spending_records :: "spending_record list"
  audit_logs :: "treasury_audit_log list"
  frozen :: bool

definition audit_log ::
  "env \<Rightarrow> treasury \<Rightarrow> string \<Rightarrow> string \<Rightarrow> string option \<Rightarrow> (string \<times> detail) list \<Rightarrow> treasury" where
  "audit_log E s act who pid ds =
     s\<lparr>audit_logs := audit_logs s @
         [\<lparr>log_timestamp = clock E, action = act, actor = who, log_proposal_id = pid,
           details = ds\<rparr>]\<rparr>"


definition add_signer :: "env \<Rightarrow> treasury \<Rightarrow> string \<Rightarrow> string \<Rightarrow> (error + unit) \<times> treasury" where
  "add_signer E s new_signer authorizer =
     (if authorizer |\<notin>| signers (config s)
      then (Inl (PermissionError ''is not an authorized signer''), s)
      else (Inr (),
            audit_log E
              (s\<lparr>config := (config s)\<lparr>signers := finsert new_signer (signers (config s))\<rparr>\<rparr>)
              ''add_signer'' authorizer None [(''new_signer'', DStr new_signer)]))"

definition remove_signer :: "env \<Rightarrow> treasury \<Rightarrow> string \<Rightarrow> string \<Rightarrow> (error + unit) \<times> treasury" where
  "remove_signer E s signer_to_remove authorizer =
     (if authorizer |\<notin>| signers (config s)
      then (Inl (PermissionError ''is not an authorized signer''), s)
      else if int (fcard (signers (config s))) \<le> threshold (config s)
      then (Inl (ValueError ''Cannot remove signer when it would drop below threshold''), s)
      else (Inr (),
            audit_log E
              (s\<lparr>config := (config s)
                   \<lparr>signers := signers (config s) |-| {|signer_to_remove|},
                    separate_emergency_signers :=
                      map_option (\<lambda>es. es |-| {|signer_to_remove|})
                        (separate_emergency_signers (config s))\<rparr>\<rparr>)
              ''remove_signer'' authorizer None [(''removed_signer'', DStr signer_to_remove)]))"

definition deposit :: "env \<Rightarrow> treasury \<Rightarrow> string \<Rightarrow> real \<Rightarrow> string \<Rightarrow> (error + unit) \<times> treasury" where
  "deposit E s coin a depositor =
     (if a \<le> 0 then (Inl (ValueError ''Deposit amount must be positive''), s)
      else
        let b = (case balances s coin of
                   Some b \<Rightarrow> b
                 | None \<Rightarrow> \<lparr>b_coin_type = coin, b_amount = 0, last_updated = clock E\<rparr>);
            s1 = s\<lparr>balances := (balances s)(coin \<mapsto> b)\<rparr>
        in case TreasuryBalance_deposit E b a of
             Inl e \<Rightarrow> (Inl e, s1)
           | Inr b' \<Rightarrow>
               (Inr (),
                audit_log E (s1\<lparr>balances := (balances s1)(coin \<mapsto> b')\<rparr>)
                  ''deposit'' depositor None [(''coin_type'', DStr coin), (''amount'', DReal a)]))"

definition get_balance :: "treasury \<Rightarrow> string \<Rightarrow> real" where
  "get_balance s coin = (case balances s coin of None \<Rightarrow> 0 | Some b \<Rightarrow> b_amount b)"

text \<open>
  The validation loop of \<open>create_proposal\<close>: a fresh context per transaction, with no
  signatures; a \<open>PolicyViolation\<close> is raised again with a prefixed message, any other
  exception passes through.
\<close>

fun reraise :: "error \<Rightarrow> error" where
  "reraise (PolicyViolation policy_name m) =
     PolicyViolation policy_name (''Proposal validation failed: '' @ m)"
| "reraise e = e"

fun validate_new ::
  "env \<Rightarrow> policy_manager \<Rightarrow> category \<Rightarrow> datetime \<Rightarrow> transaction list
     \<Rightarrow> (error + unit) \<times> policy_manager" where
  "validate_new E pm c t [] = (Inr (), pm)"
| "validate_new E pm c t (tx # txs) =
     (case validate_transaction E pm tx
             \<lparr>ctx_category = Some c, ctx_current_time = Some t, ctx_signatures = Some fmempty,
              required_time_lock = None, required_threshold = None\<rparr> of
        (Inl e, pm', ctx') \<Rightarrow> (Inl (reraise e), pm')
      | (Inr u, pm', ctx') \<Rightarrow> validate_new E pm' c t txs)"

definition create_proposal ::
  "env \<Rightarrow> treasury \<Rightarrow> string \<Rightarrow> transaction list \<Rightarrow> category \<Rightarrow> string \<Rightarrow> datetime option
     \<Rightarrow> (error + string) \<times> treasury" where
  "create_proposal E s who txs c descr current_time =
     (if who |\<notin>| signers (config s)
      then (Inl (PermissionError ''is not an authorized signer''), s)
      else if frozen s
      then (Inl (RuntimeError ''Treasury is frozen. Cannot create proposals.''), s)
      else if txs = []
      then (Inl (ValueError ''Proposal must contain at least one transaction''), s)
      else if length txs > 50
      then (Inl (ValueError ''Maximum 50 transactions per proposal''), s)
      else
        let t = or_now E current_time
        in case validate_new E (policy_manager s) c t txs of
             (Inl e, pm') \<Rightarrow> (Inl e, s\<lparr>policy_manager := pm'\<rparr>)
           | (Inr u, pm') \<Rightarrow>
               (case get_required_time_lock pm' txs c of
                  Inl e \<Rightarrow> (Inl e, s\<lparr>policy_manager := pm'\<rparr>)
                | Inr lock \<Rightarrow>
                    let pid = uuid4 E;
                        required = max (threshold (config s)) (get_required_threshold pm' txs);
                        p = \<lparr>proposal_id = pid, creator = who, transactions = txs, category = c,
                             p_description = descr, threshold_required = required,
                             created_at = t, time_lock_duration = lock, status = TIME_LOCKED,
                             signatures = fmempty, executed_at = None, cancelled_at = None\<rparr>
                    in (Inr pid,
                        audit_log E
                          (s\<lparr>policy_manager := pm', proposals := (proposals s)(pid \<mapsto> p)\<rparr>)
                          ''create_proposal'' who (Some pid)
                          [(''transactions'', DInt (int (length txs))),
                           (''category'', DStr (category_value c)),
                           (''time_lock_duration'', DInt lock),
                           (''threshold'', DInt required)])))"

definition compute_proposal_hash :: "env \<Rightarrow> proposal \<Rightarrow> int" where
  "compute_proposal_hash E p =
     builtin_hash E (proposal_id p, map (compute_hash E) (transactions p),
                     category_value (category p))"

definition sign_proposal ::
  "env \<Rightarrow> treasury \<Rightarrow> string \<Rightarrow> string \<Rightarrow> string \<Rightarrow> datetime option \<Rightarrow> (error + unit) \<times> treasury" where
  "sign_proposal E s pid sname sig_text current_time =
     (case proposals s pid of
        None \<Rightarrow> (Inl (ValueError ''Proposal not found''), s)
      | Some p \<Rightarrow>
          if sname |\<notin>| signers (config s)
          then (Inl (PermissionError ''is not an authorized signer''), s)
          else if status p \<notin> set [PENDING, TIME_LOCKED]
          then (Inl (ValueError ''Cannot sign proposal in status''), s)
          else if sname |\<in>| fmdom (signatures p)
          then (Inl (ValueError ''has already signed this proposal''), s)
          else
            let t = or_now E current_time;
                p' = p\<lparr>signatures := fmupd sname
                        \<lparr>signer = sname, signature = sig_text, timestamp = t,
                         tx_hash = HashInt (compute_proposal_hash E p)\<rparr> (signatures p)\<rparr>
            in (Inr (),
                audit_log E (s\<lparr>proposals := (proposals s)(pid \<mapsto> p')\<rparr>)
                  ''sign_proposal'' sname (Some pid)
                  [(''signature_count'', DInt (int (fcard (fmdom (signatures p')))))]))"

text \<open>
  The body of the \<open>try\<close> block of \<open>execute_proposal\<close>, one transaction after the other:
  policy validation with the proposal's signatures, the balance lookup, the withdrawal, the
  spending record.  The first failure ends the loop; what the earlier transactions did to the
  balances, the spending records and the policies stays.
\<close>

fun execute_transactions ::
  "env \<Rightarrow> string \<Rightarrow> proposal \<Rightarrow> datetime \<Rightarrow> transaction list \<Rightarrow> treasury
     \<Rightarrow> (error + unit) \<times> treasury" where
  "execute_transactions E pid p t [] s = (Inr (), s)"
| "execute_transactions E pid p t (tx # txs) s =
     (case validate_transaction E (policy_manager s) tx
             \<lparr>ctx_category = Some (category p), ctx_current_time = Some t,
              ctx_signatures = Some (signatures p),
              required_time_lock = None, required_threshold = None\<rparr> of
        (Inl e, pm', ctx') \<Rightarrow> (Inl e, s\<lparr>policy_manager := pm'\<rparr>)
      | (Inr u, pm', ctx') \<Rightarrow>
          (case balances s (coin_type tx) of
             None \<Rightarrow> (Inl (ValueError ''No balance for coin type''), s\<lparr>policy_manager := pm'\<rparr>)
           | Some b \<Rightarrow>
               (case withdraw E b (amount tx) of
                  Inl e \<Rightarrow> (Inl e, s\<lparr>policy_manager := pm'\<rparr>)
                | Inr (False, b') \<Rightarrow>
                    (Inl (ValueError ''Insufficient balance''), s\<lparr>policy_manager := pm'\<rparr>)
                | Inr (True, b') \<Rightarrow>
                    execute_transactions E pid p t txs
                      (s\<lparr>policy_manager := pm',
                         balances := (balances s)(coin_type tx \<mapsto> b'),
                         spending_records := spending_records s @
                           [\<lparr>sr_amount = amount tx, sr_timestamp = t,
                             sr_category = category p, sr_proposal_id = pid,
                             sr_tx_hash = compute_hash E tx\<rparr>]\<rparr>))))"

definition execute_proposal ::
  "env \<Rightarrow> treasury \<Rightarrow> string \<Rightarrow> string \<Rightarrow> datetime option \<Rightarrow> (error + unit) \<times> treasury" where
  "execute_proposal E s pid executor current_time =
     (case proposals s pid of
        None \<Rightarrow> (Inl (ValueError ''Proposal not found''), s)
      | Some p \<Rightarrow>
          let t = or_now E current_time
          in if \<not> can_execute p t
             then (Inl (ValueError ''Proposal cannot execute''), s)
             else
               (case execute_transactions E pid p t (transactions p) s of
                  (Inr u, s') \<Rightarrow>
                    (Inr (),
                     audit_log E
                       (s'\<lparr>proposals := (proposals s')(pid \<mapsto>
                             p\<lparr>status := EXECUTED, executed_at := Some t\<rparr>)\<rparr>)
                       ''execute_proposal'' executor (Some pid)
                       [(''transactions'', DInt (int (length (transactions p)))),
                        (''total_amount'', DReal (sum_list (map amount (transactions p))))])
                | (Inl e, s') \<Rightarrow>
                    (Inl e,
                     audit_log E
                       (s'\<lparr>proposals := (proposals s')(pid \<mapsto> p\<lparr>status := FAILED\<rparr>)\<rparr>)
                       ''execute_proposal_failed'' executor (Some pid)
                       [(''error'', DStr (str_of_error e))])))"

definition cancel_proposal ::
  "env \<Rightarrow> treasury \<Rightarrow> string \<Rightarrow> string \<Rightarrow> datetime option \<Rightarrow> (error + unit) \<times> treasury" where
  "cancel_proposal E s pid canceller current_time =
     (case proposals s pid of
        None \<Rightarrow> (Inl (ValueError ''Proposal not found''), s)
      | Some p \<Rightarrow>
          if creator p \<noteq> canceller \<and> canceller |\<notin>| fmdom (signatures p)
          then (Inl (PermissionError ''cannot cancel this proposal''), s)
          else if status p = EXECUTED
          then (Inl (ValueError ''Cannot cancel an executed proposal''), s)
          else if status p = CANCELLED
          then (Inl (ValueError ''Proposal already cancelled''), s)
          else
            let t = or_now E current_time
            in (Inr (),
                audit_log E
                  (s\<lparr>proposals := (proposals s)(pid \<mapsto>
                        p\<lparr>status := CANCELLED, cancelled_at := Some t\<rparr>)\<rparr>)
                  ''cancel_proposal'' canceller (Some pid) []))"

definition get_proposal :: "treasury \<Rightarrow> string \<Rightarrow> proposal option" where
  "get_proposal s pid = proposals s pid"

definition get_spending_history :: "treasury \<Rightarrow> category option \<Rightarrow> spending_record list" where
  "get_spending_history s c =
     (case c of
        None \<Rightarrow> spending_records s
      | Some c' \<Rightarrow> filter (\<lambda>r. sr_category r = c') (spending_records s))"

definition trigger_emergency_freeze ::
  "env \<Rightarrow> treasury \<Rightarrow> string \<Rightarrow> string \<Rightarrow> datetime option \<Rightarrow> (error + string) \<times> treasury" where
  "trigger_emergency_freeze E s initiator why current_time =
     (if initiator |\<notin>| emergency_signers (config s)
      then (Inl (PermissionError ''is not an emergency signer''), s)
      else
        let t = or_now E current_time
        in if \<not> can_trigger_emergency (config s) t
           then (Inl (RuntimeError ''Emergency cooldown period still active''), s)
           else
             (case create_emergency_action E (emergency_signers (config s)) (emergency_module s)
                     initiator ''freeze'' why t of
                Inl e \<Rightarrow> (Inl e, s)
              | Inr (aid, em') \<Rightarrow>
                  (Inr aid,
                   audit_log E (s\<lparr>emergency_module := em'\<rparr>)
                     ''emergency_freeze_initiated'' initiator None
                     [(''action_id'', DStr aid), (''reason'', DStr why)])))"

definition sign_emergency_action ::
  "env \<Rightarrow> treasury \<Rightarrow> string \<Rightarrow> string \<Rightarrow> string \<Rightarrow> datetime option \<Rightarrow> (error + unit) \<times> treasury" where
  "sign_emergency_action E s aid sname sig_text current_time =
     (if sname |\<notin>| emergency_signers (config s)
      then (Inl (PermissionError ''is not an emergency signer''), s)
      else
        let t = or_now E current_time
        in case EmergencyModule_sign_emergency_action (emergency_signers (config s))
                  (emergency_module s) aid sname sig_text t of
             Inl e \<Rightarrow> (Inl e, s)
           | Inr em' \<Rightarrow>
               (Inr (),
                audit_log E (s\<lparr>emergency_module := em'\<rparr>)
                  ''emergency_action_signed'' sname None [(''action_id'', DStr aid)]))"

definition execute_emergency_action ::
  "env \<Rightarrow> treasury \<Rightarrow> string \<Rightarrow> string \<Rightarrow> datetime option \<Rightarrow> (error + unit) \<times> treasury" where
  "execute_emergency_action E s aid executor current_time =
     (case actions (emergency_module s) aid of
        None \<Rightarrow> (Inl (ValueError ''Emergency action not found''), s)
      | Some a \<Rightarrow>
          if int (fcard (fmdom (a_signatures a))) < emergency_threshold (config s)
          then (Inl (ValueError ''Insufficient signatures''), s)
          else
            let t = or_now E current_time
            in if action_type a = ''freeze''
               then (Inr (),
                     audit_log E
                       (s\<lparr>frozen := True,
                          config := (config s)\<lparr>last_emergency_at := Some t\<rparr>,
                          emergency_module := (emergency_module s)
                            \<lparr>actions := (actions (emergency_module s))(aid \<mapsto>
                               a\<lparr>executed := True, a_executed_at := Some t\<rparr>)\<rparr>\<rparr>)
                       ''emergency_action_executed'' executor None
                       [(''action_id'', DStr aid), (''type'', DStr ''freeze'')])
               else (Inr (), s))"

definition unfreeze_treasury ::
  "env \<Rightarrow> treasury \<Rightarrow> string \<Rightarrow> string \<Rightarrow> datetime option \<Rightarrow> (error + unit) \<times> treasury" where
  "unfreeze_treasury E s sname why current_time =
     (if sname |\<notin>| emergency_signers (config s)
      then (Inl (PermissionError ''is not an emergency signer''), s)
      else if \<not> frozen s
      then (Inl (ValueError ''Treasury is not frozen''), s)
      else (Inr (),
            audit_log E (s\<lparr>frozen := False\<rparr>) ''treasury_unfrozen'' sname None
              [(''reason'', DStr why)]))"

section \<open>Histories of public operations\<close>

text \<open>
  A call of one of the state-changing public operations of \<open>Treasury\<close>.  \<open>ChangePolicies\<close>
  stands for everything a caller can do to \<open>treasury.policy_manager\<close> and to the policy objects
  it holds (\<open>add_policy\<close>, \<open>remove_policy\<close>, the mutators of the policies): the manager is
  replaced by an arbitrary one.
\<close>

datatype call =
    AddSigner string string
  | RemoveSigner string string
  | Deposit string real string
  | CreateProposal string "transaction list" category string "datetime option"
  | SignProposal string string string "datetime option"
  | ExecuteProposal string string "datetime option"
  | CancelProposal string string "datetime option"
  | TriggerEmergencyFreeze string string "datetime option"
  | SignEmergencyAction string string string "datetime option"
  | ExecuteEmergencyAction string string "datetime option"
  | UnfreezeTreasury string string "datetime option"
  | ChangePolicies policy_manager

text \<open>The treasury after a call, whether the call returned or raised.\<close>

fun perform :: "env \<Rightarrow> call \<Rightarrow> treasury \<Rightarrow> treasury" where
  "perform E (AddSigner new_signer authorizer) s = snd (add_signer E s new_signer authorizer)"
| "perform E (RemoveSigner signer_to_remove authorizer) s =
     snd (remove_signer E s signer_to_remove authorizer)"
| "perform E (Deposit coin a depositor) s = snd (deposit E s coin a depositor)"
| "perform E (CreateProposal who txs c descr ct) s = snd (create_proposal E s who txs c descr ct)"
| "perform E (SignProposal pid sname sig_text ct) s = snd (sign_proposal E s pid sname sig_text ct)"
| "perform E (ExecuteProposal pid executor ct) s = snd (execute_proposal E s pid executor ct)"
| "perform E (CancelProposal pid canceller ct) s = snd (cancel_proposal E s pid canceller ct)"
| "perform E (TriggerEmergencyFreeze initiator why ct) s =
     snd (trigger_emergency_freeze E s initiator why ct)"
| "perform E (SignEmergencyAction aid sname sig_text ct) s =
     snd (sign_emergency_action E s aid sname sig_text ct)"
| "perform E (ExecuteEmergencyAction aid executor ct) s =
     snd (execute_emergency_action E s aid executor ct)"
| "perform E (UnfreezeTreasury sname why ct) s = snd (unfreeze_treasury E s sname why ct)"
| "perform E (ChangePolicies pm) s = s\<lparr>policy_manager := pm\<rparr>"



text \<open>The exceptions that policy validation and the transaction loop of \<open>execute_proposal\<close> raise.\<close>

definition policy_error :: "error \<Rightarrow> bool" where
  "policy_error e \<longleftrightarrow>
     (case e of PolicyViolation n m \<Rightarrow> True | ZeroDivisionError \<Rightarrow> True | _ \<Rightarrow> False)"

definition loop_error :: "error \<Rightarrow> bool" where
  "loop_error e \<longleftrightarrow>
     (case e of
        PolicyViolation n m \<Rightarrow> True
      | ZeroDivisionError \<Rightarrow> True
      | ValueError m \<Rightarrow> m \<in> set [''No balance for coin type'', ''Insufficient balance'',
                                 ''Withdrawal amount must be positive'']
      | _ \<Rightarrow> False)"



section \<open>A concrete history\<close>

text \<open>
  One signer, threshold 1, no policies.  Alice deposits 10 SUI, proposes two transfers of
  10 SUI each, signs, and the proposal is executed at its unlock time: the first transfer
  is paid, the second finds the balance empty.  The failed proposal is then cancelled.
\<close>

definition demo_env :: env where
  "demo_env = \<lparr>clock = 0, uuid4 = ''p1'', compute_hash = tx_id, builtin_hash = (\<lambda>x. 0)\<rparr>"

definition demo_tx :: "string \<Rightarrow> transaction" where
  "demo_tx i = \<lparr>tx_id = i, tx_type = TRANSFER, recipient = ''bob'', amount = 10,
                coin_type = ''SUI'', description = [], metadata = []\<rparr>"

definition demo_start :: treasury where
  "demo_start = \<lparr>treasury_id = ''t'',
                  config = \<lparr>cfg_treasury_id = ''t'', signers = {|''alice''|}, threshold = 1,
                            emergency_threshold = 1, separate_emergency_signers = None,
                            emergency_cooldown = 86400, last_emergency_at = None\<rparr>,
                  balances = Map.empty,
                  proposals = Map.empty,
                  policy_manager = [],
                  emergency_module = \<lparr>em_emergency_threshold = 1, actions = Map.empty\<rparr>,
                  spending_records = [],
                  audit_logs = [],
                  frozen = False\<rparr>"

definition demo_created :: treasury where
  "demo_created =
     perform demo_env
       (CreateProposal ''alice'' [demo_tx ''tx1'', demo_tx ''tx2''] OPERATIONS ''pay'' (Some 0))
       (perform demo_env (Deposit ''SUI'' 10 ''alice'') demo_start)"

definition demo_signed :: treasury where
  "demo_signed = perform demo_env (SignProposal ''p1'' ''alice'' ''sig'' (Some 0)) demo_created"

definition demo_failed :: treasury where
  "demo_failed = perform demo_env (ExecuteProposal ''p1'' ''carol'' (Some 0)) demo_signed"


text \<open>
  In the state after the signature, Alice (the only signer, hence the only emergency signer)
  opens a freeze action, signs it and executes it.
\<close>

definition demo_alarm :: treasury where
  "demo_alarm =
     perform (demo_env\<lparr>uuid4 := ''a1''\<rparr>) (SignEmergencyAction ''a1'' ''alice'' ''sig'' (Some 5))
       (perform (demo_env\<lparr>uuid4 := ''a1''\<rparr>) (TriggerEmergencyFreeze ''alice'' ''incident'' (Some 5))
          demo_signed)"

definition demo_frozen :: treasury where
  "demo_frozen =
     perform (demo_env\<lparr>uuid4 := ''a1''\<rparr>) (ExecuteEmergencyAction ''a1'' ''alice'' (Some 5)) demo_alarm"

section \<open>The specification's time-lock formula\<close>




section \<open>Concrete policies\<close>




section \<open>Verified properties\<close>

subsection \<open>What the transaction loop can raise\<close>

lemma validate_raises:
  "validate E p tx ctx = (Inl e, p', ctx') \<Longrightarrow> policy_error e"
  by (cases p)
     (auto simp: policy_error_def SpendingLimitPolicy_validate_def WhitelistPolicy_validate_def
        CategoryPolicy_validate_def TimeLockPolicy_validate_def calculate_lock_duration_def
        ApprovalPolicy_validate_def Let_def
        split: if_splits option.splits sum.splits prod.splits)

lemma validate_transaction_raises:
  "validate_transaction E pm tx ctx = (Inl e, pm', ctx') \<Longrightarrow> policy_error e"
proof (induction pm arbitrary: ctx pm' ctx')
  case Nil
  then show ?case by simp
next
  case (Cons kp pm)
  obtain k p where kp: "kp = (k, p)" by (cases kp)
  obtain r q c1 where v: "validate E p tx ctx = (r, q, c1)" by (cases "validate E p tx ctx")
  show ?case
  proof (cases r)
    case (Inl e')
    with Cons.prems kp v have "e' = e" by simp
    with Inl v show ?thesis using validate_raises by blast
  next
    case (Inr u)
    obtain r2 ps2 c2 where v2: "validate_transaction E pm tx c1 = (r2, ps2, c2)"
      by (cases "validate_transaction E pm tx c1")
    with Cons.prems kp v Inr have "r2 = Inl e" by simp
    with v2 Cons.IH show ?thesis by blast
  qed
qed

lemma execute_transactions_raises:
  "execute_transactions E pid p t txs s = (Inl e, s') \<Longrightarrow> loop_error e"
proof (induction txs arbitrary: s)
  case Nil
  then show ?case by simp
next
  case (Cons tx txs)
  obtain r pm' c' where v: "validate_transaction E (policy_manager s) tx
             \<lparr>ctx_category = Some (category p), ctx_current_time = Some t,
              ctx_signatures = Some (signatures p),
              required_time_lock = None, required_threshold = None\<rparr> = (r, pm', c')"
    using prod_cases3 by blast
  show ?case
  proof (cases r)
    case (Inl e')
    with Cons.prems v have "e' = e" by simp
    with Inl v validate_transaction_raises have "policy_error e" by blast
    then show ?thesis by (auto simp: policy_error_def loop_error_def split: error.splits)
  next
    case (Inr u)
    with Cons.prems v Cons.IH show ?thesis
      by (auto simp: withdraw_def loop_error_def split: option.splits if_splits)
  qed
qed

subsection \<open>The precondition of \<open>execute_proposal\<close>\<close>


subsection \<open>The concrete history\<close>

lemmas demo_defs =
  demo_failed_def demo_signed_def demo_created_def demo_start_def demo_env_def demo_tx_def

lemmas op_defs =
  deposit_def create_proposal_def sign_proposal_def execute_proposal_def cancel_proposal_def
  TreasuryBalance_deposit_def withdraw_def can_execute_def compute_proposal_hash_def
  audit_log_def get_required_time_lock_def get_required_threshold_def or_now_def
  max_amount_def Let_def fcard_finsert_if



lemma demo_signed_proposal:
  "proposals demo_signed ''p1'' =
     Some \<lparr>proposal_id = ''p1'', creator = ''alice'',
           transactions = [demo_tx ''tx1'', demo_tx ''tx2''],
           category = OPERATIONS, p_description = ''pay'', threshold_required = 1,
           created_at = 0, time_lock_duration = 0, status = TIME_LOCKED,
           signatures = fmupd ''alice''
             \<lparr>signer = ''alice'', signature = ''sig'', timestamp = 0, tx_hash = HashInt 0\<rparr>
             fmempty,
           executed_at = None, cancelled_at = None\<rparr>"
  by (simp add: demo_defs op_defs)


subsection \<open>Spending records and the status of their proposals\<close>














subsection \<open>The threshold and the number of signers\<close>












subsection \<open>The frozen flag\<close>

lemma execute_transactions_frozen:
  "execute_transactions E pid p t txs (s\<lparr>frozen := b\<rparr>)
     = (fst (execute_transactions E pid p t txs s),
        (snd (execute_transactions E pid p t txs s))\<lparr>frozen := b\<rparr>)"
proof (induction txs arbitrary: s)
  case Nil
  then show ?case by simp
next
  case (Cons tx txs)
  obtain v pm' c' where v: "validate_transaction E (policy_manager s) tx
             \<lparr>ctx_category = Some (category p), ctx_current_time = Some t,
              ctx_signatures = Some (signatures p),
              required_time_lock = None, required_threshold = None\<rparr> = (v, pm', c')"
    using prod_cases3 by blast
  show ?case
  proof (cases v)
    case (Inl e)
    with v show ?thesis by simp
  next
    case (Inr u)
    show ?thesis
    proof (cases "balances s (coin_type tx)")
      case None
      with v Inr show ?thesis by simp
    next
      case (Some bal)
      show ?thesis
      proof (cases "withdraw E bal (amount tx)")
        case (Inl e)
        with v Inr Some show ?thesis by simp
      next
        case wr: (Inr ok)
        obtain okb b' where ok: "ok = (okb, b')" by (cases ok)
        show ?thesis
        proof (cases okb)
          case False
          with v Inr Some wr ok show ?thesis by simp
        next
          case True
          let ?s1 = "s\<lparr>policy_manager := pm',
                         balances := (balances s)(coin_type tx \<mapsto> b'),
                         spending_records := spending_records s @
                           [\<lparr>sr_amount = amount tx, sr_timestamp = t,
                             sr_category = category p, sr_proposal_id = pid,
                             sr_tx_hash = compute_hash E tx\<rparr>]\<rparr>"
          have swap: "(s\<lparr>frozen := b\<rparr>)\<lparr>policy_manager := pm',
                         balances := (balances s)(coin_type tx \<mapsto> b'),
                         spending_records := spending_records s @
                           [\<lparr>sr_amount = amount tx, sr_timestamp = t,
                             sr_category = category p, sr_proposal_id = pid,
                             sr_tx_hash = compute_hash E tx\<rparr>]\<rparr> = ?s1\<lparr>frozen := b\<rparr>"
            by (cases s) simp
          have "execute_transactions E pid p t (tx # txs) (s\<lparr>frozen := b\<rparr>)
                  = execute_transactions E pid p t txs
                      ((s\<lparr>frozen := b\<rparr>)\<lparr>policy_manager := pm',
                         balances := (balances s)(coin_type tx \<mapsto> b'),
                         spending_records := spending_records s @
                           [\<lparr>sr_amount = amount tx, sr_timestamp = t,
                             sr_category = category p, sr_proposal_id = pid,
                             sr_tx_hash = compute_hash E tx\<rparr>]\<rparr>)"
            using v Inr Some wr ok True by simp
          then have "execute_transactions E pid p t (tx # txs) (s\<lparr>frozen := b\<rparr>)
                  = execute_transactions E pid p t txs (?s1\<lparr>frozen := b\<rparr>)"
            unfolding swap .
          moreover have "execute_transactions E pid p t (tx # txs) s
                  = execute_transactions E pid p t txs ?s1"
            using v Inr Some wr ok True by simp
          ultimately show ?thesis using Cons.IH[of ?s1] by (simp only:)
        qed
      qed
    qed
  qed
qed

text \<open>
  C8.  While \<open>frozen\<close> is set, \<open>create_proposal\<close> by any current signer raises the
  \<open>RuntimeError\<close> (the specification's RuntimeFault) and changes nothing.
  \<open>sign_proposal\<close>, \<open>execute_proposal\<close> and \<open>cancel_proposal\<close> never read the flag: run
  from the same treasury with the flag set to any value \<open>b\<close>, each gives the same result and
  the same treasury, up to the flag itself.
\<close>

theorem frozen_blocks_only_create_proposal:
  "(frozen s \<and> who |\<in>| signers (config s) \<longrightarrow>
      create_proposal E s who txs c descr ct
        = (Inl (RuntimeError ''Treasury is frozen. Cannot create proposals.''), s))
   \<and> sign_proposal E (s\<lparr>frozen := b\<rparr>) pid sname sig_text ct
        = (fst (sign_proposal E s pid sname sig_text ct),
           (snd (sign_proposal E s pid sname sig_text ct))\<lparr>frozen := b\<rparr>)
   \<and> execute_proposal E (s\<lparr>frozen := b\<rparr>) pid executor ct
        = (fst (execute_proposal E s pid executor ct),
           (snd (execute_proposal E s pid executor ct))\<lparr>frozen := b\<rparr>)
   \<and> cancel_proposal E (s\<lparr>frozen := b\<rparr>) pid canceller ct
        = (fst (cancel_proposal E s pid canceller ct),
           (snd (cancel_proposal E s pid canceller ct))\<lparr>frozen := b\<rparr>)"
proof (intro conjI impI)
  assume "frozen s \<and> who |\<in>| signers (config s)"
  then show "create_proposal E s who txs c descr ct
        = (Inl (RuntimeError ''Treasury is frozen. Cannot create proposals.''), s)"
    by (simp add: create_proposal_def)
next
  show "sign_proposal E (s\<lparr>frozen := b\<rparr>) pid sname sig_text ct
        = (fst (sign_proposal E s pid sname sig_text ct),
           (snd (sign_proposal E s pid sname sig_text ct))\<lparr>frozen := b\<rparr>)"
    by (simp add: sign_proposal_def audit_log_def Let_def split: option.splits)
next
  show "execute_proposal E (s\<lparr>frozen := b\<rparr>) pid executor ct
        = (fst (execute_proposal E s pid executor ct),
           (snd (execute_proposal E s pid executor ct))\<lparr>frozen := b\<rparr>)"
  proof (cases "proposals s pid")
    case None
    then show ?thesis by (simp add: execute_proposal_def)
  next
    case (Some p)
    obtain r1 s1 where x: "execute_transactions E pid p (or_now E ct) (transactions p) s = (r1, s1)"
      by (cases "execute_transactions E pid p (or_now E ct) (transactions p) s")
    with execute_transactions_frozen [of E pid p "or_now E ct" "transactions p" b s]
    have y: "execute_transactions E pid p (or_now E ct) (transactions p) (s\<lparr>frozen := b\<rparr>)
               = (r1, s1\<lparr>frozen := b\<rparr>)" by simp
    from Some x y show ?thesis
      by (cases r1) (simp_all add: execute_proposal_def audit_log_def Let_def)
  qed
next
  show "cancel_proposal E (s\<lparr>frozen := b\<rparr>) pid canceller ct
        = (fst (cancel_proposal E s pid canceller ct),
           (snd (cancel_proposal E s pid canceller ct))\<lparr>frozen := b\<rparr>)"
    by (simp add: cancel_proposal_def audit_log_def Let_def split: option.splits)
qed

subsection \<open>Repeated execution of an emergency action\<close>

text \<open>
  C9.  \<open>execute_emergency_action\<close> on a \<open>freeze\<close> action with at least
  \<open>config.emergency_threshold\<close> signatures returns normally whether or not the action was
  executed before: the first call sets \<open>frozen\<close>, records its time in \<open>last_emergency_at\<close>
  and marks the action executed, so that \<open>can_execute_action\<close> is false; a second call on the
  resulting treasury, by any executor at any time \<open>t2\<close>, returns normally again, leaves
  \<open>frozen\<close> set and overwrites \<open>last_emergency_at\<close> with \<open>t2\<close>, from which the cooldown
  is then counted.
\<close>

theorem execute_emergency_action_repeats:
  assumes "actions (emergency_module s) aid = Some a"
    and "action_type a = ''freeze''"
    and "int (fcard (fmdom (a_signatures a))) \<ge> emergency_threshold (config s)"
  shows "\<exists>s1 s2.
           execute_emergency_action E1 s aid executor1 (Some t1) = (Inr (), s1)
         \<and> frozen s1 \<and> last_emergency_at (config s1) = Some t1
         \<and> map_option executed (actions (emergency_module s1) aid) = Some True
         \<and> \<not> can_execute_action (emergency_module s1) aid
         \<and> execute_emergency_action E2 s1 aid executor2 (Some t2) = (Inr (), s2)
         \<and> frozen s2 \<and> last_emergency_at (config s2) = Some t2
         \<and> (\<forall>t. can_trigger_emergency (config s2) t
                  \<longleftrightarrow> t - t2 \<ge> emergency_cooldown (config s))"
  using assms
  by (simp add: execute_emergency_action_def can_execute_action_def can_trigger_emergency_def
        audit_log_def or_now_def Let_def)

lemmas emergency_defs =
  demo_frozen_def demo_alarm_def trigger_emergency_freeze_def sign_emergency_action_def
  execute_emergency_action_def create_emergency_action_def
  EmergencyModule_sign_emergency_action_def emergency_signers_def can_trigger_emergency_def

lemma demo_alarm_action:
  "actions (emergency_module demo_alarm) ''a1'' =
     Some \<lparr>action_id = ''a1'', action_type = ''freeze'', initiated_by = ''alice'',
           initiated_at = 5, reason = ''incident'',
           a_signatures = fmupd ''alice''
             \<lparr>signer = ''alice'', signature = ''sig'', timestamp = 5, tx_hash = HashStr ''a1''\<rparr>
             fmempty,
           executed = False, a_executed_at = None\<rparr>"
  by (simp add: emergency_defs demo_defs op_defs)

lemma demo_alarm_config: "config demo_alarm = config demo_start"
  by (simp add: emergency_defs demo_defs op_defs)

lemma demo_frozen_facts:
  "frozen demo_frozen" "signers (config demo_frozen) = {|''alice''|}"
  by (simp_all add: emergency_defs demo_defs op_defs)

text \<open>
  Witness for C8: in the frozen treasury of the concrete history the signer Alice cannot
  create a proposal.
\<close>

theorem frozen_blocks_only_create_proposal_witness:
  "frozen demo_frozen \<and> ''alice'' |\<in>| signers (config demo_frozen)
   \<and> create_proposal demo_env demo_frozen ''alice'' [demo_tx ''tx3''] OPERATIONS ''pay'' (Some 6)
        = (Inl (RuntimeError ''Treasury is frozen. Cannot create proposals.''), demo_frozen)
   \<and> fst (execute_proposal demo_env (demo_frozen\<lparr>frozen := False\<rparr>) ''p1'' ''carol'' (Some 6))
        = fst (execute_proposal demo_env demo_frozen ''p1'' ''carol'' (Some 6))"
  using frozen_blocks_only_create_proposal
          [of demo_frozen "''alice''" demo_env "[demo_tx ''tx3'']" OPERATIONS "''pay''" "Some 6"
              False "''p1''" "''alice''" "''sig''" "''carol''" "''alice''"]
  by (simp add: demo_frozen_facts)

text \<open>
  Witness for C9: the freeze action of the concrete history, with one signature for an
  emergency threshold of one, is executed twice.
\<close>

theorem execute_emergency_action_repeats_witness:
  "actions (emergency_module demo_alarm) ''a1'' \<noteq> None
   \<and> int (fcard {|''alice''|}) \<ge> emergency_threshold (config demo_alarm)
   \<and> (\<exists>s1 s2.
           execute_emergency_action demo_env demo_alarm ''a1'' ''alice'' (Some 5) = (Inr (), s1)
         \<and> map_option executed (actions (emergency_module s1) ''a1'') = Some True
         \<and> execute_emergency_action demo_env s1 ''a1'' ''mallory'' (Some 90000) = (Inr (), s2)
         \<and> frozen s2 \<and> last_emergency_at (config s2) = Some 90000)"
proof -
  have thr: "int (fcard {|''alice''|}) \<ge> emergency_threshold (config demo_alarm)"
    by (simp add: demo_alarm_config demo_start_def fcard_finsert_if)
  from execute_emergency_action_repeats
         [OF demo_alarm_action, of demo_env "''alice''" 5 demo_env "''mallory''" 90000] thr
  have "\<exists>s1 s2.
           execute_emergency_action demo_env demo_alarm ''a1'' ''alice'' (Some 5) = (Inr (), s1)
         \<and> map_option executed (actions (emergency_module s1) ''a1'') = Some True
         \<and> execute_emergency_action demo_env s1 ''a1'' ''mallory'' (Some 90000) = (Inr (), s2)
         \<and> frozen s2 \<and> last_emergency_at (config s2) = Some 90000"
    by simp blast
  with thr demo_alarm_action show ?thesis by simp
qed

subsection \<open>The executor of a proposal\<close>

lemma execute_proposal_executor:
  "fst (execute_proposal E s pid executor ct) = fst (execute_proposal E s pid executor' ct)
   \<and> (snd (execute_proposal E s pid executor ct))\<lparr>audit_logs := []\<rparr>
       = (snd (execute_proposal E s pid executor' ct))\<lparr>audit_logs := []\<rparr>"
proof (cases "proposals s pid")
  case None
  then show ?thesis by (simp add: execute_proposal_def)
next
  case (Some p)
  obtain r1 s1 where x: "execute_transactions E pid p (or_now E ct) (transactions p) s = (r1, s1)"
    by (cases "execute_transactions E pid p (or_now E ct) (transactions p) s")
  with Some show ?thesis
    by (cases r1) (simp_all add: execute_proposal_def audit_log_def Let_def)
qed

text \<open>
  C10.  \<open>execute_proposal\<close> makes no permission check on \<open>executor\<close>: it never raises a
  \<open>PermissionError\<close>; with any other executor, signer or not, it gives the same result and
  the same treasury up to the actor written into the audit log; and whenever the proposal
  is stored and \<open>can_execute\<close> holds, the call goes on into the transaction loop, after
  which the proposal is Executed if the call returned and Failed if it raised.
\<close>

theorem execute_proposal_ignores_executor:
  "fst (execute_proposal E s pid executor ct) \<noteq> Inl (PermissionError m)
   \<and> fst (execute_proposal E s pid executor ct) = fst (execute_proposal E s pid executor' ct)
   \<and> (snd (execute_proposal E s pid executor ct))\<lparr>audit_logs := []\<rparr>
       = (snd (execute_proposal E s pid executor' ct))\<lparr>audit_logs := []\<rparr>
   \<and> (proposals s pid = Some p \<and> can_execute p (or_now E ct) \<longrightarrow>
        map_option status (proposals (snd (execute_proposal E s pid executor ct)) pid)
          = Some (if fst (execute_proposal E s pid executor ct) = Inr () then EXECUTED else FAILED))"
proof (intro conjI impI)
  show "fst (execute_proposal E s pid executor ct) \<noteq> Inl (PermissionError m)"
  proof (cases "proposals s pid")
    case None
    then show ?thesis by (simp add: execute_proposal_def)
  next
    case (Some p)
    obtain r1 s1 where x: "execute_transactions E pid p (or_now E ct) (transactions p) s = (r1, s1)"
      by (cases "execute_transactions E pid p (or_now E ct) (transactions p) s")
    show ?thesis
    proof (cases r1)
      case (Inl e)
      with x execute_transactions_raises have "loop_error e" by blast
      then have "e \<noteq> PermissionError m" by (auto simp: loop_error_def)
      with Inl x Some show ?thesis by (simp add: execute_proposal_def Let_def)
    next
      case (Inr u)
      with x Some show ?thesis by (simp add: execute_proposal_def Let_def)
    qed
  qed
next
  show "fst (execute_proposal E s pid executor ct) = fst (execute_proposal E s pid executor' ct)"
    and "(snd (execute_proposal E s pid executor ct))\<lparr>audit_logs := []\<rparr>
       = (snd (execute_proposal E s pid executor' ct))\<lparr>audit_logs := []\<rparr>"
    using execute_proposal_executor by blast+
next
  assume a: "proposals s pid = Some p \<and> can_execute p (or_now E ct)"
  obtain r1 s1 where x: "execute_transactions E pid p (or_now E ct) (transactions p) s = (r1, s1)"
    by (cases "execute_transactions E pid p (or_now E ct) (transactions p) s")
  with a show "map_option status (proposals (snd (execute_proposal E s pid executor ct)) pid)
          = Some (if fst (execute_proposal E s pid executor ct) = Inr () then EXECUTED else FAILED)"
    by (cases r1) (simp_all add: execute_proposal_def audit_log_def Let_def)
qed

text \<open>
  Witness for C10: Mallory, who is not a signer, executes the signed proposal of the concrete
  history; the call passes the precondition and fails only at the second transfer.
\<close>

theorem execute_proposal_ignores_executor_witness:
  "''mallory'' |\<notin>| signers (config demo_signed)
   \<and> proposals demo_signed ''p1'' \<noteq> None
   \<and> map_option status
        (proposals (snd (execute_proposal demo_env demo_signed ''p1'' ''mallory'' (Some 0))) ''p1'')
       = Some FAILED
   \<and> fst (execute_proposal demo_env demo_signed ''p1'' ''mallory'' (Some 0))
       = Inl (ValueError ''Insufficient balance'')"
proof -
  have c: "can_execute (the (proposals demo_signed ''p1'')) (or_now demo_env (Some 0))"
    by (simp add: demo_signed_proposal can_execute_def or_now_def fcard_finsert_if)
  have r: "fst (execute_proposal demo_env demo_signed ''p1'' ''mallory'' (Some 0))
       = Inl (ValueError ''Insufficient balance'')"
    by (simp add: demo_defs op_defs)
  have sg: "''mallory'' |\<notin>| signers (config demo_signed)"
    by (simp add: demo_defs op_defs)
  from execute_proposal_ignores_executor
         [of demo_env demo_signed "''p1''" "''mallory''" "Some 0" "''x''" "''alice''"
             "the (proposals demo_signed ''p1'')"] c r
  have "map_option status
        (proposals (snd (execute_proposal demo_env demo_signed ''p1'' ''mallory'' (Some 0))) ''p1'')
       = Some FAILED"
    by (simp add: demo_signed_proposal)
  with r sg show ?thesis by (simp add: demo_signed_proposal)
qed

subsection \<open>Cancelling a failed proposal\<close>

text \<open>
  C3, at the input where the code departs from it: the proposal of the concrete history is
  Failed, a terminal status, and \<open>cancel_proposal\<close> by its creator returns normally and
  sets the status to Cancelled.  The source rejects only the statuses Executed and Cancelled.
\<close>

theorem cancel_proposal_accepts_failed:
  "map_option status (proposals demo_failed ''p1'') = Some FAILED
   \<and> map_option creator (proposals demo_failed ''p1'') = Some ''alice''
   \<and> fst (cancel_proposal demo_env demo_failed ''p1'' ''alice'' (Some 7)) = Inr ()
   \<and> map_option status
        (proposals (snd (cancel_proposal demo_env demo_failed ''p1'' ''alice'' (Some 7))) ''p1'')
       = Some CANCELLED"
  by (simp add: demo_defs op_defs)

subsection \<open>The default of \<open>get_required_threshold\<close>\<close>

lemma threshold_transactions_no_policies:
  "threshold_transactions [] all_txs txs ctx = ctx"
  by (induction txs arbitrary: ctx) simp_all

text \<open>
  C5, at the input where the code departs from it: a manager without policies returns 0 for
  every list of transactions, not 2.  The context starts with \<open>required_threshold = 0\<close>, so
  the default of the final \<open>context.get("required_threshold", 2)\<close> is never taken.
\<close>

theorem get_required_threshold_default_is_zero:
  "get_required_threshold [] txs = 0"
  by (simp add: get_required_threshold_def threshold_transactions_no_policies)

subsection \<open>The time lock\<close>







subsection \<open>Temporary whitelist entries\<close>




end
